theory Spec2Isabelle
  imports Complex_Main
begin

section \<open>Numbers and vectors\<close>

text \<open>
  The simulation computes with C++ \<open>float\<close>.  The embedding reads every \<open>float\<close> as a
  real number: arithmetic is exact, \<open>std::sqrt\<close>, \<open>std::cos\<close> and \<open>std::sin\<close> are the real
  functions, and the literal \<open>0.0001f\<close> is the rational \<open>1 / 10 ^ 4\<close>.  Rounding, infinities
  and NaN are outside the model.
\<close>

text \<open>
  Modelled from the spec: the class \<open>Vector2D\<close> (\<open>math/Vector2D.h\<close>) is not among the
  sources.  The spec lists it as "2D vector arithmetic"; the operations below are the ones
  the sources call, with their usual meaning.  The accessors \<open>x\<close> and \<open>y\<close> are written
  \<open>vec_x\<close> and \<open>vec_y\<close>.
\<close>

datatype Vector2D = Vector2D (vec_x: real) (vec_y: real)

instantiation Vector2D :: "{zero,plus,minus}"
begin

definition zero_Vector2D :: Vector2D where
  "zero_Vector2D = Vector2D 0 0"

definition plus_Vector2D :: "Vector2D \<Rightarrow> Vector2D \<Rightarrow> Vector2D" where
  "plus_Vector2D a b = Vector2D (vec_x a + vec_x b) (vec_y a + vec_y b)"

definition minus_Vector2D :: "Vector2D \<Rightarrow> Vector2D \<Rightarrow> Vector2D" where
  "minus_Vector2D a b = Vector2D (vec_x a - vec_x b) (vec_y a - vec_y b)"

instance ..

end

text \<open>\<open>operator*(float)\<close> and \<open>operator/(float)\<close>.\<close>

definition mulS :: "Vector2D \<Rightarrow> real \<Rightarrow> Vector2D" where
  "mulS v s = Vector2D (vec_x v * s) (vec_y v * s)"

definition divS :: "Vector2D \<Rightarrow> real \<Rightarrow> Vector2D" where
  "divS v s = Vector2D (vec_x v / s) (vec_y v / s)"

definition dot :: "Vector2D \<Rightarrow> Vector2D \<Rightarrow> real" where
  "dot a b = vec_x a * vec_x b + vec_y a * vec_y b"

definition magnitudeSquared :: "Vector2D \<Rightarrow> real" where
  "magnitudeSquared v = vec_x v * vec_x v + vec_y v * vec_y v"

definition magnitude :: "Vector2D \<Rightarrow> real" where
  "magnitude v = sqrt (magnitudeSquared v)"

definition distance :: "Vector2D \<Rightarrow> Vector2D \<Rightarrow> real" where
  "distance a b = magnitude (a - b)"

text \<open>
  Modelled from the spec: \<open>Vector2D::normalized\<close>.  The spec says that normal computations
  "guard division by near-zero magnitude (threshold ~1e-4)"; a vector below the threshold
  is mapped to the zero vector.
\<close>

definition normalized :: "Vector2D \<Rightarrow> Vector2D" where
  "normalized v =
     (let mag = magnitude v
      in if mag > 0.0001 then divS v mag else Vector2D 0 0)"

section \<open>Balls and contacts\<close>

text \<open>
  Modelled from the spec: \<open>Ball\<close> and \<open>CollisionInfo\<close> are declared in headers that are not
  among the sources.  A ball is built by \<open>Ball(position, velocity, radius, color)\<close> in
  \<open>BallManager::createRandomBall\<close>; a default-constructed \<open>CollisionInfo\<close> reports no
  collision (the spec's Contact: flag, normal, penetration depth).
\<close>

type_synonym SDL_Color = "nat \<times> nat \<times> nat \<times> nat"

record Ball =
  position :: Vector2D
  velocity :: Vector2D
  radius :: real
  color :: SDL_Color

record CollisionInfo =
  hasCollision :: bool
  normal :: Vector2D
  penetration :: real

definition CollisionInfo_default :: CollisionInfo where
  "CollisionInfo_default =
     \<lparr>hasCollision = False, normal = Vector2D 0 0, penetration = 0\<rparr>"

section \<open>Ball against ball\<close>

text \<open>\<open>CollisionDetector::checkBallCollision\<close>, baseline (\<open>physics/CollisionDetector.cpp\<close>, lines 6-24).\<close>

definition checkBallCollision :: "Ball \<Rightarrow> Ball \<Rightarrow> CollisionInfo" where
  "checkBallCollision ballA ballB =
     (let info = CollisionInfo_default;
          delta = position ballB - position ballA;
          distanceSquared = magnitudeSquared delta;
          combinedRadius = radius ballA + radius ballB;
          combinedRadiusSquared = combinedRadius * combinedRadius
      in if distanceSquared < combinedRadiusSquared \<and> distanceSquared > 0.0001
         then (let distance = sqrt distanceSquared
               in info\<lparr>hasCollision := True,
                       normal := divS delta distance,
                       penetration := combinedRadius - distance\<rparr>)
         else info)"

text \<open>The same function in revision \<open>part_001\<close> (lines 5-23); the parameters are \<open>a\<close> and \<open>b\<close>.\<close>

definition checkBallCollision_part_001 :: "Ball \<Rightarrow> Ball \<Rightarrow> CollisionInfo" where
  "checkBallCollision_part_001 a b =
     (let info = CollisionInfo_default;
          delta = position b - position a;
          distanceSquared = magnitudeSquared delta;
          combinedRadius = radius a + radius b;
          combinedRadiusSquared = combinedRadius * combinedRadius
      in if distanceSquared < combinedRadiusSquared \<and> distanceSquared > 0.0001
         then (let distance = sqrt distanceSquared
               in info\<lparr>hasCollision := True,
                       normal := divS delta distance,
                       penetration := combinedRadius - distance\<rparr>)
         else info)"

text \<open>The same function in revision \<open>part_002\<close> (lines 6-24).\<close>

definition checkBallCollision_part_002 :: "Ball \<Rightarrow> Ball \<Rightarrow> CollisionInfo" where
  "checkBallCollision_part_002 ballA ballB =
     (let info = CollisionInfo_default;
          delta = position ballB - position ballA;
          distanceSquared = magnitudeSquared delta;
          combinedRadius = radius ballA + radius ballB;
          combinedRadiusSquared = combinedRadius * combinedRadius
      in if distanceSquared < combinedRadiusSquared \<and> distanceSquared > 0.0001
         then (let distance = sqrt distanceSquared
               in info\<lparr>hasCollision := True,
                       normal := divS delta distance,
                       penetration := combinedRadius - distance\<rparr>)
         else info)"

section \<open>The container\<close>

text \<open>
  Modelled from the spec: \<open>MathUtils\<close> (\<open>math/MathUtils.h\<close>) is not among the sources.
  \<open>degToRad\<close> converts degrees to radians, \<open>normalizeAngle\<close> is the spec's "wrapped into
  \<open>[0, 2\<pi>)\<close>" and \<open>clamp\<close> its "clamping".
\<close>

definition degToRad :: "real \<Rightarrow> real" where
  "degToRad degrees = degrees * pi / 180"

definition normalizeAngle :: "real \<Rightarrow> real" where
  "normalizeAngle angle = angle - 2 * pi * of_int \<lfloor>angle / (2 * pi)\<rfloor>"

definition clamp :: "real \<Rightarrow> real \<Rightarrow> real \<Rightarrow> real" where
  "clamp v lo hi = (if v < lo then lo else if v > hi then hi else v)"

text \<open>
  \<open>struct Edge\<close> and \<open>class Container\<close> (\<open>part_003\<close>, lines 7-12 and 41-47).  The fields
  \<open>start\<close> and \<open>end\<close> of an edge are written \<open>edge_start\<close> and \<open>edge_end\<close>.
\<close>

record Edge =
  edge_start :: Vector2D
  edge_end :: Vector2D
  sideIndex :: int
  hasGap :: bool

record Container =
  center :: Vector2D
  sideLength :: real
  gapSizeFraction :: real
  gapSide :: int
  rotationSpeed :: real
  currentAngleRad :: real

text \<open>The constructor (\<open>part_003\<close>, lines 53-61).\<close>

definition Container_init :: "Vector2D \<Rightarrow> real \<Rightarrow> real \<Rightarrow> int \<Rightarrow> Container" where
  "Container_init c side gapFraction side_no =
     \<lparr>center = c, sideLength = side, gapSizeFraction = gapFraction, gapSide = side_no,
      rotationSpeed = 360 / 10, currentAngleRad = 0\<rparr>"

text \<open>\<open>Container::update\<close> (\<open>part_003\<close>, lines 63-70).\<close>

definition Container_update :: "Container \<Rightarrow> real \<Rightarrow> Container" where
  "Container_update c deltaTime =
     (let deltaAngleDeg = rotationSpeed c * deltaTime;
          angle = currentAngleRad c + degToRad deltaAngleDeg
      in c\<lparr>currentAngleRad := normalizeAngle angle\<rparr>)"

text \<open>
  \<open>Container::getWorldCorners\<close> (\<open>part_003\<close>, lines 108-132).  A \<open>std::array\<close> of four
  elements is a list of length four; the loop over \<open>i < 4\<close> is a map over the indices.
\<close>

definition getWorldCorners :: "Container \<Rightarrow> Vector2D list" where
  "getWorldCorners c =
     (let halfSize = sideLength c / 2;
          localCorners = [Vector2D halfSize (- halfSize), Vector2D halfSize halfSize,
                          Vector2D (- halfSize) halfSize, Vector2D (- halfSize) (- halfSize)];
          cosAngle = cos (currentAngleRad c);
          sinAngle = sin (currentAngleRad c)
      in map (\<lambda>i.
           let rotatedX = vec_x (localCorners ! i) * cosAngle - vec_y (localCorners ! i) * sinAngle;
               rotatedY = vec_x (localCorners ! i) * sinAngle + vec_y (localCorners ! i) * cosAngle
           in Vector2D (vec_x (center c) + rotatedX) (vec_y (center c) + rotatedY))
         [0, 1, 2, 3])"

text \<open>\<open>Container::getWorldEdges\<close> (\<open>part_003\<close>, lines 134-152).\<close>

definition getWorldEdges :: "Container \<Rightarrow> Edge list" where
  "getWorldEdges c =
     (let corners = getWorldCorners c
      in map (\<lambda>i. \<lparr>edge_start = corners ! i, edge_end = corners ! ((i + 1) mod 4),
                    sideIndex = int i, hasGap = (int i = gapSide c)\<rparr>)
         [0, 1, 2, 3])"

text \<open>
  \<open>Container::getGapBoundaries\<close> (\<open>part_003\<close>, lines 154-169).  The two reference
  parameters are returned as a pair.  \<open>edges[gapSide]\<close> with \<open>gapSide\<close> outside \<open>0..3\<close>
  reads outside the array, which C++ leaves undefined: the model returns \<open>None\<close> there.
\<close>

definition getGapBoundaries :: "Container \<Rightarrow> (Vector2D \<times> Vector2D) option" where
  "getGapBoundaries c =
     (let edges = getWorldEdges c
      in if gapSide c < 0 \<or> 4 \<le> gapSide c then None
         else
           let gapEdge = edges ! nat (gapSide c);
               edgeVector = edge_end gapEdge - edge_start gapEdge;
               edgeLength = magnitude edgeVector;
               gapLength = edgeLength * gapSizeFraction c;
               gapStartDist = (edgeLength - gapLength) / 2;
               gapEndDist = gapStartDist + gapLength;
               edgeDir = normalized edgeVector
           in Some (edge_start gapEdge + mulS edgeDir gapStartDist,
                    edge_start gapEdge + mulS edgeDir gapEndDist))"

section \<open>Ball against container\<close>

text \<open>\<open>FLT_MAX\<close> of \<open><cfloat>\<close>: the largest finite \<open>float\<close>, \<open>(2 - 2^-23) * 2^127\<close>.\<close>

definition FLT_MAX :: real where
  "FLT_MAX = 340282346638528859811704183484516925440"

text \<open>
  The body of the loop over the edges in \<open>checkContainerCollision\<close>.  Lines 41-91 are the
  same text in the baseline file and in revision \<open>part_002\<close>; they are split here into the
  quantities they compute.  Lines 41-45: the edge vector's length and direction.
\<close>

definition edgeLength :: "Edge \<Rightarrow> real" where
  "edgeLength edge = magnitude (edge_end edge - edge_start edge)"

definition edgeDir :: "Edge \<Rightarrow> Vector2D" where
  "edgeDir edge = divS (edge_end edge - edge_start edge) (edgeLength edge)"

text \<open>Lines 47-53: the ball centre projected on the edge, clamped to the segment.\<close>

definition closestPoint :: "Ball \<Rightarrow> Edge \<Rightarrow> Vector2D" where
  "closestPoint ball edge =
     (let toBall = position ball - edge_start edge;
          projection = clamp (dot toBall (edgeDir edge)) 0 (edgeLength edge)
      in edge_start edge + mulS (edgeDir edge) projection)"

text \<open>Lines 57-62: the test that the closest point lies in the gap span.\<close>

definition inGapSpan :: "Vector2D \<Rightarrow> Vector2D \<Rightarrow> Vector2D \<Rightarrow> bool" where
  "inGapSpan point gapStart gapEnd =
     (let distToGapStart = distance point gapStart;
          distToGapEnd = distance point gapEnd;
          gapLength = distance gapStart gapEnd
      in distToGapStart + distToGapEnd \<le> gapLength + 0.5)"

text \<open>Lines 68-70: the distance of the ball centre from the closest point.\<close>

definition toBallFromEdge :: "Ball \<Rightarrow> Edge \<Rightarrow> Vector2D" where
  "toBallFromEdge ball edge = position ball - closestPoint ball edge"

definition edgeDistance :: "Ball \<Rightarrow> Edge \<Rightarrow> real" where
  "edgeDistance ball edge = magnitude (toBallFromEdge ball edge)"

text \<open>Lines 72-80: the perpendicular of the edge, turned away from the container centre.\<close>

definition edgePerp :: "Container \<Rightarrow> Edge \<Rightarrow> Vector2D" where
  "edgePerp container edge =
     (let perp = Vector2D (- vec_y (edgeDir edge)) (vec_x (edgeDir edge));
          edgeCenter = mulS (edge_start edge + edge_end edge) 0.5;
          centerToEdge = edgeCenter - center container
      in if dot perp centerToEdge < 0 then mulS perp (- 1) else perp)"

text \<open>Lines 82-91: on which side of the edge the ball centre lies.\<close>

definition ballIsInside :: "Ball \<Rightarrow> Container \<Rightarrow> Edge \<Rightarrow> bool" where
  "ballIsInside ball container edge =
     (if edgeDistance ball edge > 0.0001
      then (let ballDirection = divS (toBallFromEdge ball edge) (edgeDistance ball edge)
            in dot ballDirection (edgePerp container edge) < 0)
      else True)"

text \<open>
  The contact one edge yields, as penetration and normal; \<open>None\<close> when the loop body
  reaches \<open>continue\<close> or skips its last \<open>if\<close>.  Baseline, lines 39-126.
\<close>

definition edgeContact ::
  "Ball \<Rightarrow> Container \<Rightarrow> Vector2D \<Rightarrow> Vector2D \<Rightarrow> Edge \<Rightarrow> (real \<times> Vector2D) option" where
  "edgeContact ball container gapStart gapEnd edge =
     (if edgeLength edge < 0.0001 then None
      else if hasGap edge \<and> inGapSpan (closestPoint ball edge) gapStart gapEnd then None
      else
        let dist = edgeDistance ball edge;
            inside = ballIsInside ball container edge
        in if (inside \<and> dist < radius ball) \<or> \<not> inside
           then (if inside
                 then Some (radius ball - dist,
                            if dist > 0.0001
                            then mulS (divS (toBallFromEdge ball edge) dist) (- 1)
                            else edgePerp container edge)
                 else Some (radius ball + dist,
                            if dist > 0.0001
                            then divS (toBallFromEdge ball edge) dist
                            else edgePerp container edge))
           else None)"

text \<open>
  The loop of the baseline (lines 30-31, 39 and 128-137): the state is \<open>bestCollision\<close>
  and \<open>minPenetration\<close>; a contact is stored when its penetration is below
  \<open>minPenetration\<close>.
\<close>

fun checkEdges ::
  "Ball \<Rightarrow> Container \<Rightarrow> Vector2D \<Rightarrow> Vector2D \<Rightarrow> Edge list
     \<Rightarrow> CollisionInfo \<times> real \<Rightarrow> CollisionInfo \<times> real" where
  "checkEdges ball container gapStart gapEnd [] state = state"
| "checkEdges ball container gapStart gapEnd (edge # edges) (bestCollision, minPenetration) =
     checkEdges ball container gapStart gapEnd edges
       (case edgeContact ball container gapStart gapEnd edge of
          None \<Rightarrow> (bestCollision, minPenetration)
        | Some (pen, n) \<Rightarrow>
            if pen < minPenetration
            then (bestCollision\<lparr>hasCollision := True, penetration := pen, normal := n\<rparr>, pen)
            else (bestCollision, minPenetration))"

text \<open>
  \<open>CollisionDetector::checkContainerCollision\<close>, baseline (lines 26-140).  The result is
  \<open>None\<close> where \<open>getGapBoundaries\<close> reads outside the edge array.
\<close>

definition checkContainerCollision :: "Ball \<Rightarrow> Container \<Rightarrow> CollisionInfo option" where
  "checkContainerCollision ball container =
     (case getGapBoundaries container of
        None \<Rightarrow> None
      | Some (gapStart, gapEnd) \<Rightarrow>
          Some (fst (checkEdges ball container gapStart gapEnd (getWorldEdges container)
                       (CollisionInfo_default, FLT_MAX))))"

text \<open>
  Revision \<open>part_002\<close>: the contact one edge yields (lines 39-123).  A contact needs
  \<open>distance < radius\<close> on either side of the edge.
\<close>

definition edgeContact_part_002 ::
  "Ball \<Rightarrow> Container \<Rightarrow> Vector2D \<Rightarrow> Vector2D \<Rightarrow> Edge \<Rightarrow> (real \<times> Vector2D) option" where
  "edgeContact_part_002 ball container gapStart gapEnd edge =
     (if edgeLength edge < 0.0001 then None
      else if hasGap edge \<and> inGapSpan (closestPoint ball edge) gapStart gapEnd then None
      else
        let dist = edgeDistance ball edge;
            inside = ballIsInside ball container edge
        in if dist < radius ball
           then Some (radius ball - dist,
                      if dist > 0.0001
                      then mulS (divS (toBallFromEdge ball edge) dist) (- 1)
                      else if inside then edgePerp container edge
                      else mulS (edgePerp container edge) (- 1))
           else None)"

text \<open>
  The loop of revision \<open>part_002\<close> (lines 30-31, 39 and 138-147): every contact
  overwrites \<open>bestCollision\<close>; \<open>minPenetration\<close> is never assigned.
\<close>

fun checkEdges_part_002 ::
  "Ball \<Rightarrow> Container \<Rightarrow> Vector2D \<Rightarrow> Vector2D \<Rightarrow> Edge list
     \<Rightarrow> CollisionInfo \<times> real \<Rightarrow> CollisionInfo \<times> real" where
  "checkEdges_part_002 ball container gapStart gapEnd [] state = state"
| "checkEdges_part_002 ball container gapStart gapEnd (edge # edges) (bestCollision, minPenetration) =
     checkEdges_part_002 ball container gapStart gapEnd edges
       (case edgeContact_part_002 ball container gapStart gapEnd edge of
          None \<Rightarrow> (bestCollision, minPenetration)
        | Some (pen, n) \<Rightarrow>
            (bestCollision\<lparr>hasCollision := True, penetration := pen, normal := n\<rparr>,
             minPenetration))"

text \<open>\<open>CollisionDetector::checkContainerCollision\<close>, revision \<open>part_002\<close> (lines 26-150).\<close>

definition checkContainerCollision_part_002 :: "Ball \<Rightarrow> Container \<Rightarrow> CollisionInfo option" where
  "checkContainerCollision_part_002 ball container =
     (case getGapBoundaries container of
        None \<Rightarrow> None
      | Some (gapStart, gapEnd) \<Rightarrow>
          Some (fst (checkEdges_part_002 ball container gapStart gapEnd (getWorldEdges container)
                       (CollisionInfo_default, FLT_MAX))))"

section \<open>The ball manager\<close>

text \<open>
  Machine integers, with the wrap-around written out on \<open>int\<close>.  \<open>size_t\<close> is the 64-bit
  unsigned type: converting an integer to it reduces modulo \<open>2 ^ 64\<close>.  \<open>int\<close> is the
  32-bit two's complement type: converting to it reduces modulo \<open>2 ^ 32\<close> into
  \<open>[-2 ^ 31, 2 ^ 31)\<close>.
\<close>

definition size_t_wrap :: "int \<Rightarrow> int" where
  "size_t_wrap v = v mod 2 ^ 64"

definition int_wrap :: "int \<Rightarrow> int" where
  "int_wrap v = (v + 2 ^ 31) mod 2 ^ 32 - 2 ^ 31"

text \<open>
  \<open>class BallManager\<close>.  Its header is not among the sources: the fields are the ones the
  member functions of \<open>game/BallManager.cpp\<close> use.  \<open>pendingRespawnCount\<close> holds the value
  of the machine counter; the integer type the header declares for it is not known, and
  the conversion of a \<open>size_t\<close> value to that type is the parameter \<open>toCounter\<close> of
  \<open>BallManager_update\<close> below (\<open>int_wrap\<close> for an \<open>int\<close> counter, \<open>size_t_wrap\<close> for a \<open>size_t\<close>
  counter).
\<close>

record BallManager =
  balls :: "Ball list"
  spawnCenter :: Vector2D
  ballRadius :: real
  pendingRespawnCount :: int

text \<open>
  \<open>BallManager::createRandomBall\<close> (lines 50-54).  The velocity and the colour come from
  the global random generator; the model takes the two values drawn as an argument.
\<close>

definition createRandomBall :: "BallManager \<Rightarrow> Vector2D \<Rightarrow> Vector2D \<times> SDL_Color \<Rightarrow> Ball" where
  "createRandomBall bm pos drawn =
     \<lparr>position = pos, velocity = fst drawn, radius = ballRadius bm, color = snd drawn\<rparr>"

text \<open>\<open>BallManager::wouldCollideWithBalls\<close> (lines 82-96): the loop over the balls.\<close>

fun wouldCollide :: "real \<Rightarrow> Vector2D \<Rightarrow> Ball list \<Rightarrow> bool" where
  "wouldCollide r pos [] = False"
| "wouldCollide r pos (ball # rest) =
     (let dist = distance pos (position ball);
          minDistance = r + radius ball;
          safeDistance = minDistance * 2
      in if dist < safeDistance then True else wouldCollide r pos rest)"

definition wouldCollideWithBalls :: "BallManager \<Rightarrow> Vector2D \<Rightarrow> bool" where
  "wouldCollideWithBalls bm pos = wouldCollide (ballRadius bm) pos (balls bm)"

text \<open>
  The erase loop of \<open>BallManager::update\<close> (lines 23-34): the balls that stay, in their
  order, and \<open>offScreenCount\<close>, a \<open>size_t\<close> that \<open>++\<close> increments modulo \<open>2 ^ 64\<close>.
\<close>

fun eraseOffScreen :: "(Ball \<Rightarrow> bool) \<Rightarrow> Ball list \<Rightarrow> nat \<Rightarrow> Ball list \<times> nat" where
  "eraseOffScreen off [] offScreenCount = ([], offScreenCount)"
| "eraseOffScreen off (ball # rest) offScreenCount =
     (if off ball then eraseOffScreen off rest ((offScreenCount + 1) mod 2 ^ 64)
      else (case eraseOffScreen off rest offScreenCount of
              (kept, n) \<Rightarrow> (ball # kept, n)))"

text \<open>
  \<open>BallManager::update\<close> (lines 21-48).  \<open>Ball::isOffScreen\<close> is not among the sources and
  is a parameter.  Line 38, \<open>pendingRespawnCount += offScreenCount * respawnCount\<close>:
  \<open>respawnCount\<close> is converted to \<open>size_t\<close> and the product taken in \<open>size_t\<close>; the counter
  is converted to \<open>size_t\<close>, the sum taken in \<open>size_t\<close> and converted back to the counter's
  type by \<open>toCounter\<close>.  Line 46 decrements a counter that is positive, which no integer
  type wraps.
\<close>

definition BallManager_update ::
  "(int \<Rightarrow> int) \<Rightarrow> (Ball \<Rightarrow> real \<Rightarrow> real \<Rightarrow> bool) \<Rightarrow> Vector2D \<times> SDL_Color
     \<Rightarrow> BallManager \<Rightarrow> real \<Rightarrow> real \<Rightarrow> int \<Rightarrow> BallManager" where
  "BallManager_update toCounter isOffScreen drawn bm screenWidth screenHeight respawnCount =
     (case eraseOffScreen (\<lambda>ball. isOffScreen ball screenWidth screenHeight) (balls bm) 0 of
        (kept, offScreenCount) \<Rightarrow>
          let bm1 = bm\<lparr>balls := kept\<rparr>;
              bm2 = (if offScreenCount > 0
                     then bm1\<lparr>pendingRespawnCount :=
                                toCounter
                                  (size_t_wrap
                                     (size_t_wrap (pendingRespawnCount bm1)
                                      + size_t_wrap (int offScreenCount * size_t_wrap respawnCount)))\<rparr>
                     else bm1)
          in if pendingRespawnCount bm2 > 0 \<and> \<not> wouldCollideWithBalls bm2 (spawnCenter bm2)
             then bm2\<lparr>balls := balls bm2 @ [createRandomBall bm2 (spawnCenter bm2) drawn],
                      pendingRespawnCount := pendingRespawnCount bm2 - 1\<rparr>
             else bm2)"

section \<open>The game state\<close>

text \<open>
  \<open>class GameState\<close> (\<open>part_000\<close>).  \<open>PhysicsEngine\<close> is not among the sources: its state is
  a type parameter and its \<open>update\<close>, which receives the ball vector and the container by
  reference, is a parameter that returns the three.  \<open>Config::WINDOW_WIDTH\<close> and
  \<open>Config::WINDOW_HEIGHT\<close> are parameters too, and so is the conversion \<open>toCounter\<close> that
  \<open>BallManager_update\<close> takes.
\<close>

record 'p GameState =
  ballManager :: BallManager
  container :: Container
  physics :: 'p

type_synonym 'p PhysicsUpdate =
  "'p \<Rightarrow> Ball list \<Rightarrow> Container \<Rightarrow> real \<Rightarrow> real \<Rightarrow> 'p \<times> Ball list \<times> Container"

text \<open>\<open>GameState::update\<close> (\<open>part_000\<close>, lines 24-37).\<close>

definition GameState_update ::
  "'p PhysicsUpdate \<Rightarrow> (int \<Rightarrow> int) \<Rightarrow> (Ball \<Rightarrow> real \<Rightarrow> real \<Rightarrow> bool) \<Rightarrow> Vector2D \<times> SDL_Color
     \<Rightarrow> int \<Rightarrow> int \<Rightarrow> 'p GameState \<Rightarrow> real \<Rightarrow> real \<Rightarrow> int \<Rightarrow> 'p GameState" where
  "GameState_update physicsUpdate toCounter isOffScreen drawn WINDOW_WIDTH WINDOW_HEIGHT
       gs deltaTime restitution respawnCount =
     (let container1 = Container_update (container gs) deltaTime
      in case physicsUpdate (physics gs) (balls (ballManager gs)) container1 deltaTime restitution of
           (physics1, balls1, container2) \<Rightarrow>
             \<lparr>ballManager =
                BallManager_update toCounter isOffScreen drawn
                  ((ballManager gs)\<lparr>balls := balls1\<rparr>)
                  (real_of_int WINDOW_WIDTH) (real_of_int WINDOW_HEIGHT) respawnCount,
              container = container2,
              physics = physics1\<rparr>)"

text \<open>
  The tick as the spec words it: "advance boundary rotation, run physics step, run
  lifecycle update", each a step on the game state.
\<close>

definition advanceBoundaryRotation :: "real \<Rightarrow> 'p GameState \<Rightarrow> 'p GameState" where
  "advanceBoundaryRotation deltaTime gs =
     gs\<lparr>container := Container_update (container gs) deltaTime\<rparr>"

definition runPhysicsStep :: "'p PhysicsUpdate \<Rightarrow> real \<Rightarrow> real \<Rightarrow> 'p GameState \<Rightarrow> 'p GameState" where
  "runPhysicsStep physicsUpdate deltaTime restitution gs =
     (case physicsUpdate (physics gs) (balls (ballManager gs)) (container gs) deltaTime restitution of
        (physics1, balls1, container1) \<Rightarrow>
          gs\<lparr>ballManager := (ballManager gs)\<lparr>balls := balls1\<rparr>,
             container := container1, physics := physics1\<rparr>)"

definition runLifecycleUpdate ::
  "(int \<Rightarrow> int) \<Rightarrow> (Ball \<Rightarrow> real \<Rightarrow> real \<Rightarrow> bool) \<Rightarrow> Vector2D \<times> SDL_Color \<Rightarrow> int \<Rightarrow> int \<Rightarrow> int
     \<Rightarrow> 'p GameState \<Rightarrow> 'p GameState" where
  "runLifecycleUpdate toCounter isOffScreen drawn WINDOW_WIDTH WINDOW_HEIGHT respawnCount gs =
     gs\<lparr>ballManager :=
          BallManager_update toCounter isOffScreen drawn (ballManager gs)
            (real_of_int WINDOW_WIDTH) (real_of_int WINDOW_HEIGHT) respawnCount\<rparr>"

section \<open>Facts about vectors\<close>

lemma magnitude_nonneg: "0 \<le> magnitude v"
  by (simp add: magnitude_def magnitudeSquared_def)

lemma magnitude_divS_self:
  assumes "0 < magnitude v"
  shows "magnitude (divS v (magnitude v)) = 1"
proof -
  let ?m = "magnitude v"
  have sq: "?m * ?m = magnitudeSquared v"
    by (simp add: magnitude_def magnitudeSquared_def)
  have "magnitudeSquared (divS v ?m) = magnitudeSquared v / (?m * ?m)"
    by (simp add: magnitudeSquared_def divS_def add_divide_distrib)
  also have "\<dots> = 1"
  proof -
    have "?m * ?m \<noteq> 0" using assms by simp
    then show ?thesis by (simp add: sq)
  qed
  finally show ?thesis
    by (simp add: magnitude_def)
qed

lemma mulS_divS_self:
  assumes "0 < magnitude v"
  shows "mulS (divS v (magnitude v)) (magnitude v) = v"
  using assms by (cases v) (simp add: mulS_def divS_def)

section \<open>Properties of the ball-ball detector\<close>

text \<open>
  C4.  \<open>checkBallCollision\<close> reports a collision exactly when the squared distance of the
  centres is strictly below the square of the summed radii and strictly above the
  coincidence threshold \<open>0.0001\<close>.  When it reports one, the penetration is the summed radii
  minus the centre distance, and the normal is the vector from \<open>a\<close>'s centre to \<open>b\<close>'s centre
  divided by its length: it has length one and the centre offset is a positive multiple
  of it.
\<close>

theorem checkBallCollision_iff_overlap:
  "(hasCollision (checkBallCollision a b) \<longleftrightarrow>
      magnitudeSquared (position b - position a) < (radius a + radius b) * (radius a + radius b)
      \<and> magnitudeSquared (position b - position a) > 0.0001)
   \<and> (hasCollision (checkBallCollision a b) \<longrightarrow>
        penetration (checkBallCollision a b)
          = radius a + radius b - distance (position b) (position a)
        \<and> normal (checkBallCollision a b)
          = divS (position b - position a) (magnitude (position b - position a))
        \<and> magnitude (normal (checkBallCollision a b)) = 1
        \<and> 0 < magnitude (position b - position a)
        \<and> mulS (normal (checkBallCollision a b)) (magnitude (position b - position a))
          = position b - position a)"
proof -
  let ?d = "position b - position a"
  have flag: "hasCollision (checkBallCollision a b) \<longleftrightarrow>
      magnitudeSquared ?d < (radius a + radius b) * (radius a + radius b)
      \<and> magnitudeSquared ?d > 0.0001"
    by (simp add: checkBallCollision_def CollisionInfo_default_def Let_def)
  have rest: "penetration (checkBallCollision a b)
          = radius a + radius b - distance (position b) (position a)
        \<and> normal (checkBallCollision a b) = divS ?d (magnitude ?d)
        \<and> magnitude (normal (checkBallCollision a b)) = 1
        \<and> 0 < magnitude ?d
        \<and> mulS (normal (checkBallCollision a b)) (magnitude ?d) = ?d"
    if h: "hasCollision (checkBallCollision a b)"
  proof -
    from h flag have c: "magnitudeSquared ?d < (radius a + radius b) * (radius a + radius b)"
      and p: "magnitudeSquared ?d > 0.0001" by simp_all
    from p have pos: "0 < magnitude ?d"
      by (simp add: magnitude_def)
    have n: "normal (checkBallCollision a b) = divS ?d (magnitude ?d)"
      using c p by (simp add: checkBallCollision_def Let_def magnitude_def)
    have pe: "penetration (checkBallCollision a b)
          = radius a + radius b - distance (position b) (position a)"
      using c p by (simp add: checkBallCollision_def Let_def magnitude_def distance_def)
    show ?thesis
      using n pe pos magnitude_divS_self [OF pos] mulS_divS_self [OF pos] by simp
  qed
  show ?thesis
    using flag rest by blast
qed

theorem checkBallCollision_iff_overlap_witness:
  "hasCollision (checkBallCollision
       \<lparr>position = Vector2D 0 0, velocity = Vector2D 100 0, radius = 10, color = (255, 100, 100, 255)\<rparr>
       \<lparr>position = Vector2D 15 0, velocity = Vector2D (- 100) 0, radius = 10, color = (100, 255, 100, 255)\<rparr>)
   \<and> penetration (checkBallCollision
       \<lparr>position = Vector2D 0 0, velocity = Vector2D 100 0, radius = 10, color = (255, 100, 100, 255)\<rparr>
       \<lparr>position = Vector2D 15 0, velocity = Vector2D (- 100) 0, radius = 10, color = (100, 255, 100, 255)\<rparr>) = 5
   \<and> normal (checkBallCollision
       \<lparr>position = Vector2D 0 0, velocity = Vector2D 100 0, radius = 10, color = (255, 100, 100, 255)\<rparr>
       \<lparr>position = Vector2D 15 0, velocity = Vector2D (- 100) 0, radius = 10, color = (100, 255, 100, 255)\<rparr>)
     = Vector2D 1 0"
  using checkBallCollision_iff_overlap
    [of "\<lparr>position = Vector2D 0 0, velocity = Vector2D 100 0, radius = 10, color = (255, 100, 100, 255)\<rparr>"
        "\<lparr>position = Vector2D 15 0, velocity = Vector2D (- 100) 0, radius = 10, color = (100, 255, 100, 255)\<rparr>"]
  by (simp add: magnitudeSquared_def magnitude_def distance_def minus_Vector2D_def divS_def)

text \<open>
  C10.  The ball-ball detector is the same function in the baseline file and in the
  revisions \<open>part_001\<close> and \<open>part_002\<close>: for every pair of balls the three return the same
  contact (flag, normal and penetration).
\<close>

theorem checkBallCollision_revisions_agree:
  "checkBallCollision_part_001 a b = checkBallCollision a b
   \<and> checkBallCollision_part_002 a b = checkBallCollision a b"
  by (simp add: checkBallCollision_def checkBallCollision_part_001_def
      checkBallCollision_part_002_def)

section \<open>Properties of the container\<close>

lemma normalizeAngle_range: "0 \<le> normalizeAngle a \<and> normalizeAngle a < 2 * pi"
proof -
  define x where "x = a / (2 * pi)"
  define k where "k = real_of_int \<lfloor>x\<rfloor>"
  have n: "normalizeAngle a = 2 * pi * x - 2 * pi * k"
    by (simp add: normalizeAngle_def x_def k_def)
  have lo: "k \<le> x" and hi: "x < k + 1"
    unfolding k_def by linarith+
  have "2 * pi * k \<le> 2 * pi * x"
    using lo by simp
  moreover have "2 * pi * x < 2 * pi * (k + 1)"
    using hi by simp
  then have "2 * pi * x < 2 * pi * k + 2 * pi"
    by (simp add: distrib_left)
  ultimately show ?thesis
    unfolding n by linarith
qed

text \<open>
  C6.  After \<open>Container::update\<close>, for any \<open>deltaTime\<close>, the stored rotation angle lies in
  \<open>[0, 2\<pi>)\<close> and differs from the previous angle plus angular speed (the rotation speed
  in radians per second) times \<open>deltaTime\<close> by a whole number of turns; no other field
  changes.
\<close>

theorem Container_update_angle:
  "0 \<le> currentAngleRad (Container_update c deltaTime)
   \<and> currentAngleRad (Container_update c deltaTime) < 2 * pi
   \<and> (\<exists>k::int. currentAngleRad (Container_update c deltaTime)
         = currentAngleRad c + degToRad (rotationSpeed c) * deltaTime - 2 * pi * of_int k)
   \<and> Container_update c deltaTime
       = c\<lparr>currentAngleRad := currentAngleRad (Container_update c deltaTime)\<rparr>"
proof -
  have a: "currentAngleRad (Container_update c deltaTime)
      = normalizeAngle (currentAngleRad c + degToRad (rotationSpeed c) * deltaTime)"
    by (simp add: Container_update_def Let_def degToRad_def algebra_simps)
  have "\<exists>k::int. normalizeAngle (currentAngleRad c + degToRad (rotationSpeed c) * deltaTime)
      = currentAngleRad c + degToRad (rotationSpeed c) * deltaTime - 2 * pi * of_int k"
    unfolding normalizeAngle_def by blast
  moreover have "Container_update c deltaTime
       = c\<lparr>currentAngleRad := currentAngleRad (Container_update c deltaTime)\<rparr>"
    by (simp add: Container_update_def Let_def)
  ultimately show ?thesis
    using normalizeAngle_range a by simp
qed

lemma sqrt_sq_sum_rot:
  "sqrt ((a * s) * (a * s) + (a * c) * (a * c)) = \<bar>a\<bar> * sqrt (s * s + c * c)"
proof -
  have "(a * s) * (a * s) + (a * c) * (a * c) = (a * a) * (s * s + c * c)"
    by (simp add: algebra_simps)
  then show ?thesis
    by (simp add: real_sqrt_mult)
qed

lemma sin_cos_sq: "sin (t::real) * sin t + cos t * cos t = 1"
  using sin_cos_squared_add [of t] by (simp add: power2_eq_square)

lemma getWorldEdges_length: "length (getWorldEdges c) = 4"
  by (simp add: getWorldEdges_def Let_def)

lemma world_edge_magnitude:
  assumes "i < 4"
  shows "magnitude (edge_end (getWorldEdges c ! i) - edge_start (getWorldEdges c ! i))
         = \<bar>sideLength c\<bar>"
proof -
  let ?s = "sin (currentAngleRad c)" and ?c = "cos (currentAngleRad c)"
  let ?a = "sideLength c"
  have one: "sqrt (?s * ?s + ?c * ?c) = 1" "sqrt (?c * ?c + ?s * ?s) = 1"
    using sin_cos_sq [of "currentAngleRad c"] by (simp_all add: add.commute)
  from assms consider "i = 0" | "i = 1" | "i = 2" | "i = 3" by linarith
  then show ?thesis
  proof cases
    case 1
    have "magnitudeSquared (edge_end (getWorldEdges c ! i) - edge_start (getWorldEdges c ! i))
        = (?a * ?s) * (?a * ?s) + (?a * ?c) * (?a * ?c)"
      using 1 by (simp add: getWorldEdges_def getWorldCorners_def Let_def minus_Vector2D_def
          magnitudeSquared_def algebra_simps)
    then show ?thesis
      by (simp only: magnitude_def sqrt_sq_sum_rot one mult_1_right)
  next
    case 2
    have "magnitudeSquared (edge_end (getWorldEdges c ! i) - edge_start (getWorldEdges c ! i))
        = (?a * ?c) * (?a * ?c) + (?a * ?s) * (?a * ?s)"
      using 2 by (simp add: getWorldEdges_def getWorldCorners_def Let_def minus_Vector2D_def
          magnitudeSquared_def algebra_simps)
    then show ?thesis
      by (simp only: magnitude_def sqrt_sq_sum_rot one mult_1_right)
  next
    case 3
    have "magnitudeSquared (edge_end (getWorldEdges c ! i) - edge_start (getWorldEdges c ! i))
        = (?a * ?s) * (?a * ?s) + (?a * ?c) * (?a * ?c)"
      using 3 by (simp add: getWorldEdges_def getWorldCorners_def Let_def minus_Vector2D_def
          magnitudeSquared_def algebra_simps)
    then show ?thesis
      by (simp only: magnitude_def sqrt_sq_sum_rot one mult_1_right)
  next
    case 4
    have "magnitudeSquared (edge_end (getWorldEdges c ! i) - edge_start (getWorldEdges c ! i))
        = (?a * ?c) * (?a * ?c) + (?a * ?s) * (?a * ?s)"
      using 4 by (simp add: getWorldEdges_def getWorldCorners_def Let_def minus_Vector2D_def
          magnitudeSquared_def algebra_simps)
    then show ?thesis
      by (simp only: magnitude_def sqrt_sq_sum_rot one mult_1_right)
  qed
qed


lemma mulS_normalized:
  assumes "0.0001 < magnitude v"
  shows "mulS (normalized v) (magnitude v * t) = mulS v t"
proof -
  have nz: "magnitude v \<noteq> 0" using assms by simp
  have "normalized v = divS v (magnitude v)"
    using assms by (simp add: normalized_def Let_def)
  then show ?thesis
    using nz by (simp add: mulS_def divS_def)
qed

lemma magnitude_mulS: "magnitude (mulS v t) = \<bar>t\<bar> * magnitude v"
proof -
  have "magnitudeSquared (mulS v t) = (t * t) * magnitudeSquared v"
    by (simp add: magnitudeSquared_def mulS_def algebra_simps)
  then show ?thesis
    by (simp add: magnitude_def real_sqrt_mult)
qed

lemma distance_on_line:
  "distance (s + mulS v p) (s + mulS v q) = \<bar>p - q\<bar> * magnitude v"
proof -
  have "(s + mulS v p) - (s + mulS v q) = mulS v (p - q)"
    by (simp add: plus_Vector2D_def minus_Vector2D_def mulS_def algebra_simps)
  then show ?thesis
    by (simp add: distance_def magnitude_mulS)
qed

lemma gap_dist_start: "((L::real) - L * f) / 2 = L * ((1 - f) / 2)"
  by (simp add: field_simps)

lemma gap_dist_end: "((L::real) - L * f) / 2 + L * f = L * ((1 + f) / 2)"
  by (simp add: field_simps)

lemma getGapBoundaries_on_edge:
  assumes side: "0 \<le> gapSide c" "gapSide c < 4"
    and len: "0.0001 < magnitude (edge_end (getWorldEdges c ! nat (gapSide c))
                                   - edge_start (getWorldEdges c ! nat (gapSide c)))"
  shows "getGapBoundaries c =
     Some (edge_start (getWorldEdges c ! nat (gapSide c))
             + mulS (edge_end (getWorldEdges c ! nat (gapSide c))
                     - edge_start (getWorldEdges c ! nat (gapSide c)))
                 ((1 - gapSizeFraction c) / 2),
           edge_start (getWorldEdges c ! nat (gapSide c))
             + mulS (edge_end (getWorldEdges c ! nat (gapSide c))
                     - edge_start (getWorldEdges c ! nat (gapSide c)))
                 ((1 + gapSizeFraction c) / 2))"
proof -
  let ?e = "getWorldEdges c ! nat (gapSide c)"
  let ?v = "edge_end ?e - edge_start ?e"
  let ?L = "magnitude ?v"
  let ?f = "gapSizeFraction c"
  have s1: "mulS (normalized ?v) ((?L - ?L * ?f) / 2) = mulS ?v ((1 - ?f) / 2)"
    by (simp only: gap_dist_start [of ?L ?f] mulS_normalized [OF len])
  have s2: "mulS (normalized ?v) ((?L - ?L * ?f) / 2 + ?L * ?f) = mulS ?v ((1 + ?f) / 2)"
    by (simp only: gap_dist_end [of ?L ?f] mulS_normalized [OF len])
  have "getGapBoundaries c =
     Some (edge_start ?e + mulS (normalized ?v) ((?L - ?L * ?f) / 2),
           edge_start ?e + mulS (normalized ?v) ((?L - ?L * ?f) / 2 + ?L * ?f))"
    using side by (simp add: getGapBoundaries_def Let_def)
  then show ?thesis
    by (simp only: s1 s2)
qed


lemma filter_hasGap_one:
  assumes "0 \<le> gapSide c" "gapSide c < 4"
  shows "length (filter hasGap (getWorldEdges c)) = 1 \<and> hasGap (getWorldEdges c ! nat (gapSide c))"
proof -
  from assms consider "gapSide c = 0" | "gapSide c = 1" | "gapSide c = 2" | "gapSide c = 3"
    by linarith
  then show ?thesis
    by cases (simp_all add: getWorldEdges_def Let_def)
qed

lemma symmetric_on_line:
  "(s + mulS (e - s) ((1 - f) / 2)) - mulS (s + e) (1 / 2)
     = mulS (s + e) (1 / 2) - (s + mulS (e - s) ((1 + f) / 2))"
  by (cases s, cases e) (simp add: plus_Vector2D_def minus_Vector2D_def mulS_def field_simps)

text \<open>
  C7.  In a container whose gap side is one of \<open>0..3\<close>, whose gap fraction is not negative
  and whose side is longer than the normalisation threshold, exactly one of the four
  edges of \<open>getWorldEdges\<close> is marked as carrying the gap, namely edge \<open>gapSide\<close>; the
  endpoints returned by \<open>getGapBoundaries\<close> lie on that edge, are mirror images of each
  other in the edge midpoint, and are \<open>gapSizeFraction\<close> times the edge length apart.
\<close>

theorem gap_centred_on_one_edge:
  assumes "0 \<le> gapSide c" and "gapSide c < 4"
    and "0 \<le> gapSizeFraction c" and "0.0001 < sideLength c"
  shows "length (getWorldEdges c) = 4
     \<and> length (filter hasGap (getWorldEdges c)) = 1
     \<and> hasGap (getWorldEdges c ! nat (gapSide c))
     \<and> (\<exists>gapStart gapEnd.
           getGapBoundaries c = Some (gapStart, gapEnd)
         \<and> gapStart = edge_start (getWorldEdges c ! nat (gapSide c))
             + mulS (edge_end (getWorldEdges c ! nat (gapSide c))
                     - edge_start (getWorldEdges c ! nat (gapSide c)))
                 ((1 - gapSizeFraction c) / 2)
         \<and> gapEnd = edge_start (getWorldEdges c ! nat (gapSide c))
             + mulS (edge_end (getWorldEdges c ! nat (gapSide c))
                     - edge_start (getWorldEdges c ! nat (gapSide c)))
                 ((1 + gapSizeFraction c) / 2)
         \<and> gapStart - mulS (edge_start (getWorldEdges c ! nat (gapSide c))
                             + edge_end (getWorldEdges c ! nat (gapSide c))) (1 / 2)
             = mulS (edge_start (getWorldEdges c ! nat (gapSide c))
                     + edge_end (getWorldEdges c ! nat (gapSide c))) (1 / 2) - gapEnd
         \<and> distance gapStart gapEnd
             = gapSizeFraction c
               * magnitude (edge_end (getWorldEdges c ! nat (gapSide c))
                            - edge_start (getWorldEdges c ! nat (gapSide c))))"
proof -
  let ?e = "getWorldEdges c ! nat (gapSide c)"
  let ?v = "edge_end ?e - edge_start ?e"
  let ?f = "gapSizeFraction c"
  have i4: "nat (gapSide c) < 4" using assms(1,2) by simp
  have len: "magnitude ?v = sideLength c"
    using world_edge_magnitude [OF i4, of c] assms(4) by simp
  then have big: "0.0001 < magnitude ?v" using assms(4) by simp
  note gb = getGapBoundaries_on_edge [OF assms(1,2) big]
  have d: "distance (edge_start ?e + mulS ?v ((1 - ?f) / 2)) (edge_start ?e + mulS ?v ((1 + ?f) / 2))
      = ?f * magnitude ?v"
  proof -
    have "\<bar>(1 - ?f) / 2 - (1 + ?f) / 2\<bar> = ?f"
      using assms(3) by (simp add: field_simps)
    then show ?thesis
      by (simp only: distance_on_line)
  qed
  show ?thesis
    using getWorldEdges_length [of c] filter_hasGap_one [OF assms(1,2)] gb d
      symmetric_on_line [of "edge_start ?e" "edge_end ?e" ?f]
    by simp
qed

theorem gap_centred_on_one_edge_witness:
  "(let c = Container_init (Vector2D 400 300) 600 (1 / 4) 0
    in 0 \<le> gapSide c \<and> gapSide c < 4 \<and> 0 \<le> gapSizeFraction c \<and> 0.0001 < sideLength c
       \<and> length (filter hasGap (getWorldEdges c)) = 1
       \<and> getGapBoundaries c = Some (Vector2D 700 225, Vector2D 700 375))"
proof -
  let ?c = "Container_init (Vector2D 400 300) 600 (1 / 4) 0"
  have h: "0 \<le> gapSide ?c" "gapSide ?c < 4" "0 \<le> gapSizeFraction ?c" "0.0001 < sideLength ?c"
    by (simp_all add: Container_init_def)
  have e: "getWorldEdges ?c ! nat (gapSide ?c)
      = \<lparr>edge_start = Vector2D 700 0, edge_end = Vector2D 700 600, sideIndex = 0, hasGap = True\<rparr>"
    by (simp add: Container_init_def getWorldEdges_def getWorldCorners_def Let_def)
  show ?thesis
    using gap_centred_on_one_edge [OF h] h
    by (simp add: e Let_def plus_Vector2D_def minus_Vector2D_def mulS_def)
      (simp add: Container_init_def)
qed

text \<open>
  C8.  The geometry queries are \<open>const\<close> member functions: in the embedding they are
  functions of the container value and return no container, so no field changes.  Their
  results are determined by centre, side length, rotation angle, gap fraction and gap
  side alone: two containers that agree on these five fields (and may differ in the
  rotation speed) give equal corners, edges and gap endpoints.
\<close>

theorem geometry_queries_depend_on_five_fields:
  assumes "center c' = center c" and "sideLength c' = sideLength c"
    and "currentAngleRad c' = currentAngleRad c"
    and "gapSizeFraction c' = gapSizeFraction c" and "gapSide c' = gapSide c"
  shows "getWorldCorners c' = getWorldCorners c
     \<and> getWorldEdges c' = getWorldEdges c
     \<and> getGapBoundaries c' = getGapBoundaries c"
proof -
  have corners: "getWorldCorners c' = getWorldCorners c"
    using assms(1,2,3) by (simp add: getWorldCorners_def)
  have edges: "getWorldEdges c' = getWorldEdges c"
    using assms(5) by (simp add: getWorldEdges_def corners)
  have "getGapBoundaries c' = getGapBoundaries c"
    using assms(4,5) by (simp add: getGapBoundaries_def edges)
  with corners edges show ?thesis by simp
qed

theorem geometry_queries_depend_on_five_fields_witness:
  "getWorldCorners (Container_init (Vector2D 400 300) 600 (1 / 4) 0\<lparr>rotationSpeed := 90\<rparr>)
     = getWorldCorners (Container_init (Vector2D 400 300) 600 (1 / 4) 0)
   \<and> getWorldEdges (Container_init (Vector2D 400 300) 600 (1 / 4) 0\<lparr>rotationSpeed := 90\<rparr>)
     = getWorldEdges (Container_init (Vector2D 400 300) 600 (1 / 4) 0)
   \<and> getGapBoundaries (Container_init (Vector2D 400 300) 600 (1 / 4) 0\<lparr>rotationSpeed := 90\<rparr>)
     = getGapBoundaries (Container_init (Vector2D 400 300) 600 (1 / 4) 0)
   \<and> Container_init (Vector2D 400 300) 600 (1 / 4) 0\<lparr>rotationSpeed := 90\<rparr>
     \<noteq> Container_init (Vector2D 400 300) 600 (1 / 4) 0"
  using geometry_queries_depend_on_five_fields
    [of "Container_init (Vector2D 400 300) 600 (1 / 4) 0\<lparr>rotationSpeed := 90\<rparr>"
        "Container_init (Vector2D 400 300) 600 (1 / 4) 0"]
  by (simp add: Container_init_def)

section \<open>Properties of the ball-container detector\<close>

text \<open>The definitions that evaluate vector and edge computations on concrete inputs.\<close>

lemmas vec_defs = plus_Vector2D_def minus_Vector2D_def mulS_def divS_def dot_def
  magnitudeSquared_def magnitude_def distance_def

lemmas edge_defs = edgeLength_def edgeDir_def closestPoint_def clamp_def inGapSpan_def
  toBallFromEdge_def edgeDistance_def edgePerp_def ballIsInside_def

text \<open>
  The container that \<open>GameState\<close> constructs (side 600, gap fraction 0.25, gap on side 0),
  centred at the origin and not yet rotated: its edges and gap endpoints.
\<close>

lemma game_edges:
  "getWorldEdges (Container_init (Vector2D 0 0) 600 (1 / 4) 0) =
     [\<lparr>edge_start = Vector2D 300 (- 300), edge_end = Vector2D 300 300, sideIndex = 0, hasGap = True\<rparr>,
      \<lparr>edge_start = Vector2D 300 300, edge_end = Vector2D (- 300) 300, sideIndex = 1, hasGap = False\<rparr>,
      \<lparr>edge_start = Vector2D (- 300) 300, edge_end = Vector2D (- 300) (- 300), sideIndex = 2, hasGap = False\<rparr>,
      \<lparr>edge_start = Vector2D (- 300) (- 300), edge_end = Vector2D 300 (- 300), sideIndex = 3, hasGap = False\<rparr>]"
  by (simp add: Container_init_def getWorldEdges_def getWorldCorners_def Let_def)

lemma game_gap:
  "getGapBoundaries (Container_init (Vector2D 0 0) 600 (1 / 4) 0)
     = Some (Vector2D 300 (- 75), Vector2D 300 75)"
proof -
  have g: "gapSide (Container_init (Vector2D 0 0) 600 (1 / 4) 0) = 0"
    "gapSizeFraction (Container_init (Vector2D 0 0) 600 (1 / 4) 0) = 1 / 4"
    by (simp_all add: Container_init_def)
  show ?thesis
    by (simp add: getGapBoundaries_def game_edges Let_def normalized_def vec_defs g)
qed


lemma edgeContact_gap_skip:
  assumes "hasGap edge" and "inGapSpan (closestPoint ball edge) gapStart gapEnd"
  shows "edgeContact ball c gapStart gapEnd edge = None"
    and "edgeContact_part_002 ball c gapStart gapEnd edge = None"
  using assms by (simp_all add: edgeContact_def edgeContact_part_002_def)

lemma checkEdges_skip_gap:
  assumes "\<And>e. e \<in> set es \<Longrightarrow> hasGap e \<Longrightarrow> edgeContact ball c gs ge e = None"
  shows "checkEdges ball c gs ge es st
       = checkEdges ball c gs ge (filter (\<lambda>e. \<not> hasGap e) es) st"
  using assms
proof (induction es arbitrary: st)
  case Nil
  then show ?case by simp
next
  case (Cons e es)
  obtain best minPen where st: "st = (best, minPen)" by (cases st)
  have rest: "\<And>st'. checkEdges ball c gs ge es st'
       = checkEdges ball c gs ge (filter (\<lambda>e. \<not> hasGap e) es) st'"
    using Cons by simp
  show ?case
  proof (cases "hasGap e")
    case True
    then have "edgeContact ball c gs ge e = None" using Cons.prems by simp
    with True show ?thesis by (simp add: st rest)
  next
    case False
    then show ?thesis by (simp add: st rest)
  qed
qed

lemma checkEdges_part_002_skip_gap:
  assumes "\<And>e. e \<in> set es \<Longrightarrow> hasGap e \<Longrightarrow> edgeContact_part_002 ball c gs ge e = None"
  shows "checkEdges_part_002 ball c gs ge es st
       = checkEdges_part_002 ball c gs ge (filter (\<lambda>e. \<not> hasGap e) es) st"
  using assms
proof (induction es arbitrary: st)
  case Nil
  then show ?case by simp
next
  case (Cons e es)
  obtain best minPen where st: "st = (best, minPen)" by (cases st)
  have rest: "\<And>st'. checkEdges_part_002 ball c gs ge es st'
       = checkEdges_part_002 ball c gs ge (filter (\<lambda>e. \<not> hasGap e) es) st'"
    using Cons by simp
  show ?case
  proof (cases "hasGap e")
    case True
    then have "edgeContact_part_002 ball c gs ge e = None" using Cons.prems by simp
    with True show ?thesis by (simp add: st rest)
  next
    case False
    then show ?thesis by (simp add: st rest)
  qed
qed

lemma gap_edge_unique:
  assumes "0 \<le> gapSide c" and "gapSide c < 4"
    and "e \<in> set (getWorldEdges c)" and "hasGap e"
  shows "e = getWorldEdges c ! nat (gapSide c)"
proof -
  from assms(1,2) consider "gapSide c = 0" | "gapSide c = 1" | "gapSide c = 2" | "gapSide c = 3"
    by linarith
  then show ?thesis
    using assms(3,4) by cases (auto simp add: getWorldEdges_def Let_def)
qed

lemma getGapBoundaries_Some_side:
  assumes "getGapBoundaries c = Some p"
  shows "0 \<le> gapSide c \<and> gapSide c < 4"
proof (rule ccontr)
  assume "\<not> (0 \<le> gapSide c \<and> gapSide c < 4)"
  then have "getGapBoundaries c = None"
    by (auto simp add: getGapBoundaries_def Let_def)
  with assms show False by simp
qed

text \<open>
  C3.  For every ball and every container (any rotation angle): when the point of the
  gap-bearing edge closest to the ball centre lies in the gap span (its distances to the
  two gap endpoints sum to at most the gap length plus the tolerance \<open>0.5\<close>), that edge
  yields no contact, whatever the radius and the distance of the ball, in the baseline
  and in revision \<open>part_002\<close>; \<open>checkContainerCollision\<close> then returns what the loop over
  the three other edges alone returns.
\<close>

theorem gap_span_gives_no_contact:
  assumes gb: "getGapBoundaries c = Some (gapStart, gapEnd)"
    and span: "inGapSpan (closestPoint ball (getWorldEdges c ! nat (gapSide c))) gapStart gapEnd"
  shows "hasGap (getWorldEdges c ! nat (gapSide c))
     \<and> edgeContact ball c gapStart gapEnd (getWorldEdges c ! nat (gapSide c)) = None
     \<and> edgeContact_part_002 ball c gapStart gapEnd (getWorldEdges c ! nat (gapSide c)) = None
     \<and> checkContainerCollision ball c
         = Some (fst (checkEdges ball c gapStart gapEnd
                        (filter (\<lambda>e. \<not> hasGap e) (getWorldEdges c))
                        (CollisionInfo_default, FLT_MAX)))
     \<and> checkContainerCollision_part_002 ball c
         = Some (fst (checkEdges_part_002 ball c gapStart gapEnd
                        (filter (\<lambda>e. \<not> hasGap e) (getWorldEdges c))
                        (CollisionInfo_default, FLT_MAX)))"
proof -
  let ?g = "getWorldEdges c ! nat (gapSide c)"
  from getGapBoundaries_Some_side [OF gb] have side: "0 \<le> gapSide c" "gapSide c < 4"
    by simp_all
  from filter_hasGap_one [OF side] have hg: "hasGap ?g" by simp
  note none = edgeContact_gap_skip [OF hg span, of c]
  have only: "e = ?g" if "e \<in> set (getWorldEdges c)" and "hasGap e" for e
    using gap_edge_unique [OF side that] .
  have a: "checkEdges ball c gapStart gapEnd (getWorldEdges c) st
       = checkEdges ball c gapStart gapEnd (filter (\<lambda>e. \<not> hasGap e) (getWorldEdges c)) st" for st
    by (rule checkEdges_skip_gap) (use only none in auto)
  have b: "checkEdges_part_002 ball c gapStart gapEnd (getWorldEdges c) st
       = checkEdges_part_002 ball c gapStart gapEnd (filter (\<lambda>e. \<not> hasGap e) (getWorldEdges c)) st" for st
    by (rule checkEdges_part_002_skip_gap) (use only none in auto)
  show ?thesis
    using hg none by (simp add: checkContainerCollision_def checkContainerCollision_part_002_def gb a b)
qed

theorem gap_span_gives_no_contact_witness:
  "(let ball = \<lparr>position = Vector2D 300 0, velocity = Vector2D 50 0, radius = 15, color = (255, 255, 255, 255)\<rparr>;
        c = Container_init (Vector2D 0 0) 600 (1 / 4) 0
    in getGapBoundaries c = Some (Vector2D 300 (- 75), Vector2D 300 75)
       \<and> inGapSpan (closestPoint ball (getWorldEdges c ! nat (gapSide c))) (Vector2D 300 (- 75)) (Vector2D 300 75)
       \<and> edgeContact ball c (Vector2D 300 (- 75)) (Vector2D 300 75) (getWorldEdges c ! nat (gapSide c)) = None
       \<and> edgeContact_part_002 ball c (Vector2D 300 (- 75)) (Vector2D 300 75) (getWorldEdges c ! nat (gapSide c)) = None
       \<and> checkContainerCollision ball c = Some CollisionInfo_default
       \<and> checkContainerCollision_part_002 ball c = Some CollisionInfo_default)"
proof -
  let ?ball = "\<lparr>position = Vector2D 300 0, velocity = Vector2D 50 0, radius = 15, color = (255, 255, 255, 255)\<rparr>"
  let ?c = "Container_init (Vector2D 0 0) 600 (1 / 4) 0"
  have g: "gapSide ?c = 0" "center ?c = Vector2D 0 0" by (simp_all add: Container_init_def)
  have span: "inGapSpan (closestPoint ?ball (getWorldEdges ?c ! nat (gapSide ?c)))
      (Vector2D 300 (- 75)) (Vector2D 300 75)"
    by (simp add: game_edges g edge_defs vec_defs Let_def)
  let ?E1 = "\<lparr>edge_start = Vector2D 300 300, edge_end = Vector2D (- 300) 300, sideIndex = 1, hasGap = False\<rparr>"
  let ?E2 = "\<lparr>edge_start = Vector2D (- 300) 300, edge_end = Vector2D (- 300) (- 300), sideIndex = 2, hasGap = False\<rparr>"
  let ?E3 = "\<lparr>edge_start = Vector2D (- 300) (- 300), edge_end = Vector2D 300 (- 300), sideIndex = 3, hasGap = False\<rparr>"
  have e1: "edgeContact ?ball ?c (Vector2D 300 (- 75)) (Vector2D 300 75) ?E1 = None"
    "edgeContact_part_002 ?ball ?c (Vector2D 300 (- 75)) (Vector2D 300 75) ?E1 = None"
    by (simp_all add: g edgeContact_def edgeContact_part_002_def edge_defs vec_defs Let_def)
  have e2: "edgeContact ?ball ?c (Vector2D 300 (- 75)) (Vector2D 300 75) ?E2 = None"
    "edgeContact_part_002 ?ball ?c (Vector2D 300 (- 75)) (Vector2D 300 75) ?E2 = None"
    by (simp_all add: g edgeContact_def edgeContact_part_002_def edge_defs vec_defs Let_def)
  have e3: "edgeContact ?ball ?c (Vector2D 300 (- 75)) (Vector2D 300 75) ?E3 = None"
    "edgeContact_part_002 ?ball ?c (Vector2D 300 (- 75)) (Vector2D 300 75) ?E3 = None"
    by (simp_all add: g edgeContact_def edgeContact_part_002_def edge_defs vec_defs Let_def)
  have f: "filter (\<lambda>e. \<not> hasGap e) (getWorldEdges ?c) = [?E1, ?E2, ?E3]"
    by (simp add: game_edges)
  note t = gap_span_gives_no_contact [OF game_gap span, unfolded f]
  show ?thesis
    using t by (simp add: Let_def game_gap span e1 e2 e3)
qed


text \<open>
  C1.  A ball of radius 5 near the top-left corner overlaps the top edge by 2 and the left
  edge by 1.  The deepest contact is the one of the top edge; the baseline stores a contact
  only when its penetration is below the least one so far and returns the left edge's
  contact of penetration 1, and revision \<open>part_002\<close> returns the contact of the last
  overlapping edge, again the left edge's.
\<close>

theorem corner_contact_is_not_deepest:
  "(let ball = \<lparr>position = Vector2D (- 296) 297, velocity = Vector2D 0 0, radius = 5, color = (255, 255, 255, 255)\<rparr>;
        c = Container_init (Vector2D 0 0) 600 (1 / 4) 0;
        gapStart = Vector2D 300 (- 75);
        gapEnd = Vector2D 300 75
    in getGapBoundaries c = Some (gapStart, gapEnd)
       \<and> map (edgeContact ball c gapStart gapEnd) (getWorldEdges c)
           = [None, Some (2, Vector2D 0 1), Some (1, Vector2D (- 1) 0), None]
       \<and> checkContainerCollision ball c
           = Some \<lparr>hasCollision = True, normal = Vector2D (- 1) 0, penetration = 1\<rparr>
       \<and> map (edgeContact_part_002 ball c gapStart gapEnd) (getWorldEdges c)
           = [None, Some (2, Vector2D 0 1), Some (1, Vector2D (- 1) 0), None]
       \<and> checkContainerCollision_part_002 ball c
           = Some \<lparr>hasCollision = True, normal = Vector2D (- 1) 0, penetration = 1\<rparr>)"
proof -
  let ?ball = "\<lparr>position = Vector2D (- 296) 297, velocity = Vector2D 0 0, radius = 5, color = (255, 255, 255, 255)\<rparr>"
  let ?c = "Container_init (Vector2D 0 0) 600 (1 / 4) 0"
  let ?gs = "Vector2D 300 (- 75)" and ?ge = "Vector2D 300 75"
  let ?E0 = "\<lparr>edge_start = Vector2D 300 (- 300), edge_end = Vector2D 300 300, sideIndex = 0, hasGap = True\<rparr>"
  let ?E1 = "\<lparr>edge_start = Vector2D 300 300, edge_end = Vector2D (- 300) 300, sideIndex = 1, hasGap = False\<rparr>"
  let ?E2 = "\<lparr>edge_start = Vector2D (- 300) 300, edge_end = Vector2D (- 300) (- 300), sideIndex = 2, hasGap = False\<rparr>"
  let ?E3 = "\<lparr>edge_start = Vector2D (- 300) (- 300), edge_end = Vector2D 300 (- 300), sideIndex = 3, hasGap = False\<rparr>"
  have g: "center ?c = Vector2D 0 0" by (simp add: Container_init_def)
  have e0: "edgeContact ?ball ?c ?gs ?ge ?E0 = None"
    "edgeContact_part_002 ?ball ?c ?gs ?ge ?E0 = None"
    by (simp_all add: g edgeContact_def edgeContact_part_002_def edge_defs vec_defs Let_def)
  have e1: "edgeContact ?ball ?c ?gs ?ge ?E1 = Some (2, Vector2D 0 1)"
    "edgeContact_part_002 ?ball ?c ?gs ?ge ?E1 = Some (2, Vector2D 0 1)"
    by (simp_all add: g edgeContact_def edgeContact_part_002_def edge_defs vec_defs Let_def)
  have e2: "edgeContact ?ball ?c ?gs ?ge ?E2 = Some (1, Vector2D (- 1) 0)"
    "edgeContact_part_002 ?ball ?c ?gs ?ge ?E2 = Some (1, Vector2D (- 1) 0)"
    by (simp_all add: g edgeContact_def edgeContact_part_002_def edge_defs vec_defs Let_def)
  have e3: "edgeContact ?ball ?c ?gs ?ge ?E3 = None"
    "edgeContact_part_002 ?ball ?c ?gs ?ge ?E3 = None"
    by (simp_all add: g edgeContact_def edgeContact_part_002_def edge_defs vec_defs Let_def)
  have base: "checkContainerCollision ?ball ?c
      = Some \<lparr>hasCollision = True, normal = Vector2D (- 1) 0, penetration = 1\<rparr>"
    by (simp add: checkContainerCollision_def game_gap game_edges e0 e1 e2 e3
        CollisionInfo_default_def FLT_MAX_def)
  have rev: "checkContainerCollision_part_002 ?ball ?c
      = Some \<lparr>hasCollision = True, normal = Vector2D (- 1) 0, penetration = 1\<rparr>"
    by (simp add: checkContainerCollision_part_002_def game_gap game_edges e0 e1 e2 e3
        CollisionInfo_default_def FLT_MAX_def)
  show ?thesis
    by (simp add: Let_def game_gap game_edges e0 e1 e2 e3 base rev)
qed

text \<open>
  C2, as stated, fails on the baseline: a ball of radius 10 whose centre lies 125 outside
  the top edge is on the exterior side, farther away than its radius, and the baseline
  reports a contact for that edge, of penetration radius plus distance.
\<close>

theorem exterior_contact_counterexample:
  "(let ball = \<lparr>position = Vector2D 0 425, velocity = Vector2D 0 0, radius = 10, color = (255, 255, 255, 255)\<rparr>;
        c = Container_init (Vector2D 0 0) 600 (1 / 4) 0;
        top = \<lparr>edge_start = Vector2D 300 300, edge_end = Vector2D (- 300) 300, sideIndex = 1, hasGap = False\<rparr>
    in getGapBoundaries c = Some (Vector2D 300 (- 75), Vector2D 300 75)
       \<and> getWorldEdges c ! 1 = top
       \<and> \<not> ballIsInside ball c top
       \<and> edgeDistance ball top = 125
       \<and> \<not> edgeDistance ball top < radius ball
       \<and> edgeContact ball c (Vector2D 300 (- 75)) (Vector2D 300 75) top = Some (135, Vector2D 0 1)
       \<and> checkContainerCollision ball c
           = Some \<lparr>hasCollision = True, normal = Vector2D 0 1, penetration = 135\<rparr>)"
proof -
  let ?ball = "\<lparr>position = Vector2D 0 425, velocity = Vector2D 0 0, radius = 10, color = (255, 255, 255, 255)\<rparr>"
  let ?c = "Container_init (Vector2D 0 0) 600 (1 / 4) 0"
  let ?gs = "Vector2D 300 (- 75)" and ?ge = "Vector2D 300 75"
  let ?E0 = "\<lparr>edge_start = Vector2D 300 (- 300), edge_end = Vector2D 300 300, sideIndex = 0, hasGap = True\<rparr>"
  let ?E1 = "\<lparr>edge_start = Vector2D 300 300, edge_end = Vector2D (- 300) 300, sideIndex = 1, hasGap = False\<rparr>"
  let ?E2 = "\<lparr>edge_start = Vector2D (- 300) 300, edge_end = Vector2D (- 300) (- 300), sideIndex = 2, hasGap = False\<rparr>"
  let ?E3 = "\<lparr>edge_start = Vector2D (- 300) (- 300), edge_end = Vector2D 300 (- 300), sideIndex = 3, hasGap = False\<rparr>"
  have g: "center ?c = Vector2D 0 0" by (simp add: Container_init_def)
  have d: "edgeDistance ?ball ?E1 = 125"
    by (simp add: edge_defs vec_defs Let_def)
  have out: "\<not> ballIsInside ?ball ?c ?E1"
    by (simp add: g edge_defs vec_defs Let_def)
  have e0: "edgeContact ?ball ?c ?gs ?ge ?E0 = None"
    by (simp add: g edgeContact_def edge_defs vec_defs Let_def)
  have e1: "edgeContact ?ball ?c ?gs ?ge ?E1 = Some (135, Vector2D 0 1)"
    by (simp add: g edgeContact_def edge_defs vec_defs Let_def)
  have e2: "edgeContact ?ball ?c ?gs ?ge ?E2 = None"
    by (simp add: g edgeContact_def edge_defs vec_defs Let_def)
  have e3: "edgeContact ?ball ?c ?gs ?ge ?E3 = None"
    by (simp add: g edgeContact_def edge_defs vec_defs Let_def)
  have base: "checkContainerCollision ?ball ?c
      = Some \<lparr>hasCollision = True, normal = Vector2D 0 1, penetration = 135\<rparr>"
    by (simp add: checkContainerCollision_def game_gap game_edges e0 e1 e2 e3
        CollisionInfo_default_def FLT_MAX_def)
  show ?thesis
    by (simp add: Let_def game_gap game_edges d out e1 base)
qed

text \<open>
  C2, amended.  In revision \<open>part_002\<close> an edge that is neither degenerate nor skipped for
  the gap reports a contact exactly when the centre-to-edge distance is below the radius,
  on either side of the edge.  In the baseline such an edge reports a contact exactly
  when the distance is below the radius or the centre is on the exterior side; for an
  exterior centre the penetration is the radius plus the distance.
\<close>

theorem exterior_contact_by_revision:
  "(edgeContact_part_002 ball c gapStart gapEnd edge \<noteq> None \<longleftrightarrow>
      \<not> edgeLength edge < 0.0001
      \<and> \<not> (hasGap edge \<and> inGapSpan (closestPoint ball edge) gapStart gapEnd)
      \<and> edgeDistance ball edge < radius ball)
   \<and> (edgeContact ball c gapStart gapEnd edge \<noteq> None \<longleftrightarrow>
      \<not> edgeLength edge < 0.0001
      \<and> \<not> (hasGap edge \<and> inGapSpan (closestPoint ball edge) gapStart gapEnd)
      \<and> (edgeDistance ball edge < radius ball \<or> \<not> ballIsInside ball c edge))
   \<and> (\<not> ballIsInside ball c edge \<longrightarrow>
        (\<forall>pen n. edgeContact ball c gapStart gapEnd edge = Some (pen, n)
           \<longrightarrow> pen = radius ball + edgeDistance ball edge))"
  by (auto simp add: edgeContact_def edgeContact_part_002_def Let_def)

theorem exterior_contact_by_revision_witness:
  "(let ball = \<lparr>position = Vector2D 0 425, velocity = Vector2D 0 0, radius = 10, color = (255, 255, 255, 255)\<rparr>;
        c = Container_init (Vector2D 0 0) 600 (1 / 4) 0;
        top = \<lparr>edge_start = Vector2D 300 300, edge_end = Vector2D (- 300) 300, sideIndex = 1, hasGap = False\<rparr>
    in \<not> ballIsInside ball c top
       \<and> edgeContact_part_002 ball c (Vector2D 300 (- 75)) (Vector2D 300 75) top = None
       \<and> edgeContact ball c (Vector2D 300 (- 75)) (Vector2D 300 75) top \<noteq> None)"
proof -
  let ?ball = "\<lparr>position = Vector2D 0 425, velocity = Vector2D 0 0, radius = 10, color = (255, 255, 255, 255)\<rparr>"
  let ?c = "Container_init (Vector2D 0 0) 600 (1 / 4) 0"
  let ?E1 = "\<lparr>edge_start = Vector2D 300 300, edge_end = Vector2D (- 300) 300, sideIndex = 1, hasGap = False\<rparr>"
  have g: "center ?c = Vector2D 0 0" by (simp add: Container_init_def)
  have l: "\<not> edgeLength ?E1 < 0.0001"
    by (simp add: edge_defs vec_defs)
  have d: "edgeDistance ?ball ?E1 = 125"
    by (simp add: edge_defs vec_defs Let_def)
  have out: "\<not> ballIsInside ?ball ?c ?E1"
    by (simp add: g edge_defs vec_defs Let_def)
  have nd: "\<not> edgeDistance ?ball ?E1 < radius ?ball"
    by (simp add: d)
  have h: "\<not> (hasGap ?E1 \<and> inGapSpan (closestPoint ?ball ?E1) (Vector2D 300 (- 75)) (Vector2D 300 75))"
    by simp
  note t = exterior_contact_by_revision [of ?ball ?c "Vector2D 300 (- 75)" "Vector2D 300 75" ?E1]
  from t nd have a: "edgeContact_part_002 ?ball ?c (Vector2D 300 (- 75)) (Vector2D 300 75) ?E1 = None"
    by blast
  from t l h out have b: "edgeContact ?ball ?c (Vector2D 300 (- 75)) (Vector2D 300 75) ?E1 \<noteq> None"
    by blast
  show ?thesis
    unfolding Let_def using out a b by blast
qed

section \<open>Properties of the ball manager and of the tick\<close>

lemma eraseOffScreen_kept:
  "fst (eraseOffScreen off bs n) = filter (\<lambda>b. \<not> off b) bs"
proof (induction bs arbitrary: n)
  case Nil
  then show ?case by simp
next
  case (Cons b bs)
  obtain kept m where e: "eraseOffScreen off bs n = (kept, m)"
    by (cases "eraseOffScreen off bs n")
  with Cons.IH [of n] have k: "kept = filter (\<lambda>b. \<not> off b) bs" by simp
  show ?case
    using Cons.IH [of "(n + 1) mod 2 ^ 64"] e k by simp
qed

lemma eraseOffScreen_count:
  "n < 2 ^ 64 \<Longrightarrow> snd (eraseOffScreen off bs n) = (n + length (filter off bs)) mod 2 ^ 64"
proof (induction bs arbitrary: n)
  case Nil
  then show ?case by simp
next
  case (Cons b bs)
  show ?case
  proof (cases "off b")
    case True
    have lt: "(n + 1) mod 2 ^ 64 < (2 ^ 64 :: nat)" by simp
    have "snd (eraseOffScreen off (b # bs) n)
        = ((n + 1) mod 2 ^ 64 + length (filter off bs)) mod 2 ^ 64"
      using True Cons.IH [OF lt] by simp
    also have "\<dots> = (n + 1 + length (filter off bs)) mod 2 ^ 64"
      by (rule mod_add_left_eq)
    finally show ?thesis using True by simp
  next
    case False
    obtain kept m where e: "eraseOffScreen off bs n = (kept, m)"
      by (cases "eraseOffScreen off bs n")
    with Cons.IH [OF Cons.prems] have "m = (n + length (filter off bs)) mod 2 ^ 64" by simp
    with False e show ?thesis by simp
  qed
qed

lemma wouldCollide_iff:
  "wouldCollide r pos bs \<longleftrightarrow> (\<exists>b \<in> set bs. distance pos (position b) < (r + radius b) * 2)"
  by (induction bs) (simp_all add: Let_def)

lemma int_wrap_id: "0 \<le> v \<Longrightarrow> v < 2 ^ 31 \<Longrightarrow> int_wrap v = v"
  by (simp add: int_wrap_def)

lemma size_t_wrap_id: "0 \<le> v \<Longrightarrow> v < 2 ^ 64 \<Longrightarrow> size_t_wrap v = v"
  by (simp add: size_t_wrap_def)

lemma respawn_sum_no_wrap:
  assumes p: "0 \<le> p" and r: "0 \<le> r" and k: "0 < k"
    and q: "p + int k * r < 2 ^ 31"
  shows "size_t_wrap (size_t_wrap p + size_t_wrap (int k * size_t_wrap r)) = p + int k * r"
proof -
  have kr: "0 \<le> int k * r" using r by simp
  have "1 * r \<le> int k * r"
    using k r by (intro mult_right_mono) simp_all
  then have rk: "r \<le> int k * r" by simp
  have a: "size_t_wrap r = r"
    using r rk p q by (intro size_t_wrap_id) simp_all
  have b: "size_t_wrap (int k * r) = int k * r"
    using kr p q by (intro size_t_wrap_id) simp_all
  have c: "size_t_wrap p = p"
    using p kr q by (intro size_t_wrap_id) simp_all
  have d: "size_t_wrap (p + int k * r) = p + int k * r"
    using p kr q by (intro size_t_wrap_id) simp_all
  show ?thesis by (simp only: a b c d)
qed


text \<open>
  C5, as stated, fails where line 38 wraps.  Two balls are erased and the counter is 0.
  With an \<open>int\<close> counter and \<open>respawnCount = 2147483647\<close> the counter becomes \<open>-2\<close>: it has not
  grown by the number erased times \<open>respawnCount\<close>, it is negative, and no ball is spawned
  although the spawn centre is clear.  With a \<open>size_t\<close> counter and \<open>respawnCount = -1\<close> the
  sum wraps to \<open>2 ^ 64 - 2\<close> and a ball is spawned.
\<close>

theorem pending_counter_wraps_counterexample:
  "(let gone1 = \<lparr>position = Vector2D 400 900, velocity = Vector2D 0 250, radius = 10, color = (255, 100, 100, 255)\<rparr>;
        gone2 = \<lparr>position = Vector2D 200 950, velocity = Vector2D 0 300, radius = 10, color = (100, 255, 100, 255)\<rparr>;
        bm = \<lparr>balls = [gone1, gone2], spawnCenter = Vector2D 400 300, ballRadius = 10,
               pendingRespawnCount = 0\<rparr>;
        off = (\<lambda>b w h. h < vec_y (position b));
        drawn = (Vector2D 60 80, (200, 150, 100, 255));
        intCounter = BallManager_update int_wrap off drawn bm 800 600 2147483647;
        sizeCounter = BallManager_update size_t_wrap off drawn bm 800 600 (- 1)
    in length (filter (\<lambda>b. off b 800 600) (balls bm)) = 2
       \<and> pendingRespawnCount intCounter = - 2
       \<and> pendingRespawnCount intCounter \<noteq> pendingRespawnCount bm + 2 * 2147483647
       \<and> pendingRespawnCount intCounter < 0
       \<and> balls intCounter = []
       \<and> pendingRespawnCount sizeCounter = 18446744073709551613
       \<and> pendingRespawnCount sizeCounter \<noteq> pendingRespawnCount bm + 2 * (- 1) - 1
       \<and> balls sizeCounter = [\<lparr>position = Vector2D 400 300, velocity = Vector2D 60 80,
                                   radius = 10, color = (200, 150, 100, 255)\<rparr>])"
  by (simp add: Let_def BallManager_update_def int_wrap_def size_t_wrap_def
      wouldCollideWithBalls_def createRandomBall_def)

text \<open>
  C5, amended.  After every call of \<open>BallManager::update\<close> the balls are the on-screen balls
  of before, in their order (every off-screen ball is erased, no on-screen ball is),
  followed by at most one new ball at the spawn centre with the manager's radius.  When
  the counter and \<open>respawnCount\<close> are not negative and the counter plus the number erased
  times \<open>respawnCount\<close> stays below \<open>2 ^ 31\<close> (so that nothing wraps, for any counter type
  that holds the values of \<open>[0, 2 ^ 31)\<close> unchanged), the counter grows by exactly the
  number erased times \<open>respawnCount\<close>, less one when a ball is spawned; a ball is spawned
  exactly when the grown counter is positive and the spawn centre keeps the safety
  distance from every remaining ball; and the counter stays non-negative.
\<close>

theorem BallManager_update_lifecycle:
  "(let bm' = BallManager_update toCounter isOffScreen drawn bm w h respawnCount;
        kept = filter (\<lambda>b. \<not> isOffScreen b w h) (balls bm);
        removed = length (filter (\<lambda>b. isOffScreen b w h) (balls bm));
        queued = pendingRespawnCount bm + int removed * respawnCount;
        clear = (\<forall>b \<in> set kept.
                   \<not> distance (spawnCenter bm) (position b) < (ballRadius bm + radius b) * 2);
        spawn = (0 < queued \<and> clear);
        new = \<lparr>position = spawnCenter bm, velocity = fst drawn,
                radius = ballRadius bm, color = snd drawn\<rparr>
    in (balls bm' = kept \<or> balls bm' = kept @ [new])
       \<and> spawnCenter bm' = spawnCenter bm
       \<and> ballRadius bm' = ballRadius bm
       \<and> ((\<forall>v. 0 \<le> v \<and> v < 2 ^ 31 \<longrightarrow> toCounter v = v)
            \<and> 0 \<le> pendingRespawnCount bm \<and> 0 \<le> respawnCount
            \<and> queued < 2 ^ 31 \<and> length (balls bm) < 2 ^ 64
          \<longrightarrow> balls bm' = (if spawn then kept @ [new] else kept)
              \<and> pendingRespawnCount bm' = (if spawn then queued - 1 else queued)
              \<and> 0 \<le> pendingRespawnCount bm'))"
proof -
  let ?off = "\<lambda>b. isOffScreen b w h"
  let ?kept = "filter (\<lambda>b. \<not> ?off b) (balls bm)"
  let ?removed = "length (filter ?off (balls bm))"
  let ?queued = "pendingRespawnCount bm + int ?removed * respawnCount"
  let ?bm' = "BallManager_update toCounter isOffScreen drawn bm w h respawnCount"
  let ?new = "\<lparr>position = spawnCenter bm, velocity = fst drawn,
                radius = ballRadius bm, color = snd drawn\<rparr>"
  let ?clear = "\<forall>b \<in> set ?kept.
      \<not> distance (spawnCenter bm) (position b) < (ballRadius bm + radius b) * 2"
  obtain kept n where e: "eraseOffScreen ?off (balls bm) 0 = (kept, n)"
    by (cases "eraseOffScreen ?off (balls bm) 0")
  have k: "kept = ?kept"
    using eraseOffScreen_kept [of ?off "balls bm" 0] e by simp
  have frame: "(balls ?bm' = ?kept \<or> balls ?bm' = ?kept @ [?new])
      \<and> spawnCenter ?bm' = spawnCenter bm \<and> ballRadius ?bm' = ballRadius bm"
    by (simp add: BallManager_update_def e k Let_def createRandomBall_def)
  have exact: "balls ?bm' = (if 0 < ?queued \<and> ?clear then ?kept @ [?new] else ?kept)
      \<and> pendingRespawnCount ?bm' = (if 0 < ?queued \<and> ?clear then ?queued - 1 else ?queued)
      \<and> 0 \<le> pendingRespawnCount ?bm'"
    if conv: "\<forall>v. 0 \<le> v \<and> v < 2 ^ 31 \<longrightarrow> toCounter v = v"
      and p: "0 \<le> pendingRespawnCount bm" and r: "0 \<le> respawnCount"
      and q: "?queued < 2 ^ 31" and len: "length (balls bm) < 2 ^ 64"
  proof -
    have "?removed < 2 ^ 64"
      by (rule le_less_trans [OF length_filter_le len])
    then have n: "n = ?removed"
      using eraseOffScreen_count [of 0 ?off "balls bm"] e by simp
    have q0: "0 \<le> ?queued" using p r by simp
    have stored: "toCounter (size_t_wrap (size_t_wrap (pendingRespawnCount bm)
          + size_t_wrap (int ?removed * size_t_wrap respawnCount))) = ?queued"
      if "0 < ?removed"
      using respawn_sum_no_wrap [OF p r that q] conv q0 q by simp
    show ?thesis
    proof (cases "0 < ?removed")
      case True
      then show ?thesis
        using stored [OF True] q0
        by (auto simp add: BallManager_update_def e k n Let_def wouldCollideWithBalls_def
            wouldCollide_iff createRandomBall_def)
    next
      case False
      then show ?thesis
        using q0
        by (auto simp add: BallManager_update_def e k n Let_def wouldCollideWithBalls_def
            wouldCollide_iff createRandomBall_def)
    qed
  qed
  show ?thesis
    unfolding Let_def using frame exact by blast
qed

theorem BallManager_update_lifecycle_witness:
  "(let gone = \<lparr>position = Vector2D 400 900, velocity = Vector2D 0 250, radius = 10, color = (255, 100, 100, 255)\<rparr>;
        stays = \<lparr>position = Vector2D 400 100, velocity = Vector2D 30 0, radius = 10, color = (100, 255, 100, 255)\<rparr>;
        bm = \<lparr>balls = [gone, stays], spawnCenter = Vector2D 400 300, ballRadius = 10,
               pendingRespawnCount = 0\<rparr>;
        off = (\<lambda>b w h. h < vec_y (position b));
        drawn = (Vector2D 60 80, (200, 150, 100, 255));
        new = \<lparr>position = Vector2D 400 300, velocity = Vector2D 60 80, radius = 10,
                color = (200, 150, 100, 255)\<rparr>
    in (\<forall>v. 0 \<le> v \<and> v < 2 ^ 31 \<longrightarrow> int_wrap v = v)
       \<and> (\<forall>v. 0 \<le> v \<and> v < 2 ^ 31 \<longrightarrow> size_t_wrap v = v)
       \<and> balls (BallManager_update int_wrap off drawn bm 800 600 2) = [stays, new]
       \<and> pendingRespawnCount (BallManager_update int_wrap off drawn bm 800 600 2) = 1
       \<and> balls (BallManager_update size_t_wrap off drawn bm 800 600 2) = [stays, new]
       \<and> pendingRespawnCount (BallManager_update size_t_wrap off drawn bm 800 600 2) = 1)"
proof -
  let ?bm = "\<lparr>balls = [\<lparr>position = Vector2D 400 900, velocity = Vector2D 0 250, radius = 10, color = (255, 100, 100, 255)\<rparr>,
                   \<lparr>position = Vector2D 400 100, velocity = Vector2D 30 0, radius = 10, color = (100, 255, 100, 255)\<rparr>],
          spawnCenter = Vector2D 400 300, ballRadius = 10, pendingRespawnCount = 0\<rparr>"
  let ?off = "\<lambda>(b::Ball) (w::real) (h::real). h < vec_y (position b)"
  let ?drawn = "(Vector2D 60 80, (200, 150, 100, 255)) :: Vector2D \<times> SDL_Color"
  have ci: "\<forall>v. 0 \<le> v \<and> v < 2 ^ 31 \<longrightarrow> int_wrap v = v"
    using int_wrap_id by simp
  have cs: "\<forall>v. 0 \<le> v \<and> v < 2 ^ 31 \<longrightarrow> size_t_wrap v = v"
  proof (intro allI impI)
    fix v :: int
    assume "0 \<le> v \<and> v < 2 ^ 31"
    then show "size_t_wrap v = v" by (intro size_t_wrap_id) simp_all
  qed
  have a: "balls (BallManager_update int_wrap ?off ?drawn ?bm 800 600 2)
        = [\<lparr>position = Vector2D 400 100, velocity = Vector2D 30 0, radius = 10, color = (100, 255, 100, 255)\<rparr>,
           \<lparr>position = Vector2D 400 300, velocity = Vector2D 60 80, radius = 10, color = (200, 150, 100, 255)\<rparr>]
      \<and> pendingRespawnCount (BallManager_update int_wrap ?off ?drawn ?bm 800 600 2) = 1"
    using BallManager_update_lifecycle [of int_wrap ?off ?drawn ?bm 800 600 2] ci
    by (simp add: Let_def minus_Vector2D_def magnitudeSquared_def magnitude_def distance_def)
  have b: "balls (BallManager_update size_t_wrap ?off ?drawn ?bm 800 600 2)
        = [\<lparr>position = Vector2D 400 100, velocity = Vector2D 30 0, radius = 10, color = (100, 255, 100, 255)\<rparr>,
           \<lparr>position = Vector2D 400 300, velocity = Vector2D 60 80, radius = 10, color = (200, 150, 100, 255)\<rparr>]
      \<and> pendingRespawnCount (BallManager_update size_t_wrap ?off ?drawn ?bm 800 600 2) = 1"
    using BallManager_update_lifecycle [of size_t_wrap ?off ?drawn ?bm 800 600 2] cs
    by (simp add: Let_def minus_Vector2D_def magnitudeSquared_def magnitude_def distance_def)
  show ?thesis
    unfolding Let_def using ci cs a b by blast
qed

text \<open>
  C9.  \<open>GameState::update\<close> is the lifecycle update after the physics step after the
  advance of the boundary rotation, each applied once: the physics step receives the
  rotated container, and the lifecycle update the balls the physics step left.
\<close>

theorem GameState_update_order:
  "GameState_update physicsUpdate toCounter isOffScreen drawn W H gs deltaTime restitution respawnCount
     = runLifecycleUpdate toCounter isOffScreen drawn W H respawnCount
         (runPhysicsStep physicsUpdate deltaTime restitution
            (advanceBoundaryRotation deltaTime gs))"
  by (simp add: GameState_update_def runLifecycleUpdate_def runPhysicsStep_def
      advanceBoundaryRotation_def Let_def split: prod.splits)

theorem GameState_update_order_witness:
  "(let gs = \<lparr>ballManager = \<lparr>balls = [], spawnCenter = Vector2D 400 300, ballRadius = 10,
                                 pendingRespawnCount = 1\<rparr>,
               container = Container_init (Vector2D 400 300) 600 (1 / 4) 0,
               physics = ()\<rparr>;
        gs' = GameState_update (\<lambda>p bs c dt r. (p, bs, c)) int_wrap (\<lambda>b w h. h < vec_y (position b))
                (Vector2D 60 80, (200, 150, 100, 255)) 800 600 gs 5 1 1
    in currentAngleRad (container gs') = pi
       \<and> balls (ballManager gs') = [\<lparr>position = Vector2D 400 300, velocity = Vector2D 60 80,
                                       radius = 10, color = (200, 150, 100, 255)\<rparr>]
       \<and> pendingRespawnCount (ballManager gs') = 0)"
proof -
  have n: "normalizeAngle pi = pi"
  proof -
    have "\<lfloor>pi / (2 * pi)\<rfloor> = \<lfloor>(1 / 2 :: real)\<rfloor>" by simp
    then show ?thesis by (simp add: normalizeAngle_def)
  qed
  show ?thesis
    unfolding GameState_update_order
    by (simp add: Let_def runLifecycleUpdate_def runPhysicsStep_def advanceBoundaryRotation_def
        Container_update_def Container_init_def degToRad_def n
        BallManager_update_def wouldCollideWithBalls_def createRandomBall_def)
qed

end
